theory Spec2Isabelle
  imports Complex_Main "HOL-Library.FSet" "HOL-Library.Char_ord" "HOL-Library.List_Lexorder"
    "HOL-Library.Word"
begin

section \<open>Conventions\<close>

text \<open>
  The fraud pipeline computes with Python floats. Outside the calibration step they are
  modelled as \<^typ>\<open>real\<close>: every comparison, sum, product and quotient of the source is
  the exact one, and a decimal literal such as \<open>0.3\<close> is the rational it denotes. The
  calibration step is modelled with the rounding of 64-bit floating point after every
  operation, because its monotonicity depends on it. Infinities and NaN are outside the
  model. Python integers are \<^typ>\<open>int\<close>, \<open>Optional[t]\<close> is \<open>t option\<close>, a
  \<open>dict\<close> is a map or, where the order of its keys matters, an association list. Strings
  are \<^typ>\<open>string\<close>; a character stands for the code point of the same number, so the
  model covers text over the code points below 256.

  A raised exception is a value: a function that can raise returns \<open>py_error + 'a\<close> with
  \<open>Inl\<close> for the exception. Clocks and random identifiers (\<open>utcnow\<close>, \<open>uuid4\<close>) are
  arguments of the functions that read them. Key expiry in the key/value store, concurrent
  workers and an unreachable store or broker are outside the model.
\<close>

datatype py_error =
    TypeError
  | ValueError
  | KeyError
  | ZeroDivisionError
  | ValidationError
  | ResponseError
  | HTTP404

section \<open>Ensemble scorer (score-svc/main.py)\<close>

text \<open>
  \<open>Geolocation\<close> and \<open>FeatureVector\<close> of shared/schemas/features.py. The timestamp, the
  user-agent hash, the schema version and the computation metadata are left out: they come
  from the clock, from Python's salted \<open>hash\<close> and from constants.
\<close>

record geolocation =
  country :: "string option"
  region :: "string option"
  city :: "string option"
  latitude :: "real option"
  longitude :: "real option"

record feature_vector =
  fv_event_id :: string
  fv_entity_id :: string
  amount :: "real option"
  currency :: "string option"
  fv_channel :: "string option"
  velocity_1h :: int
  velocity_24h :: int
  velocity_7d :: int
  ip_risk :: real
  ip_geolocation :: "geolocation option"
  geo_distance_km :: real
  merchant_risk :: real
  merchant_category :: "string option"
  age_days :: int
  fv_device_fingerprint :: "string option"
  fv_session_id :: "string option"

text \<open>
  \<open>compute_rule_score\<close>: the accumulator \<open>score\<close> is threaded through the five rules in
  source order. \<open>if feature_vector.amount and feature_vector.amount > 10000\<close> is false for
  \<open>None\<close> and for \<open>0.0\<close>.
\<close>

definition compute_rule_score :: "feature_vector \<Rightarrow> real" where
  "compute_rule_score fv =
     (let score0 = 0;
          score1 = (if (case amount fv of None \<Rightarrow> False | Some a \<Rightarrow> a \<noteq> 0 \<and> a > 10000)
                    then score0 + 0.3 else score0);
          score2 = (if velocity_1h fv > 10 then score1 + 0.4
                    else if velocity_1h fv > 5 then score1 + 0.2 else score1);
          score3 = (if ip_risk fv > 0.8 then score2 + 0.3
                    else if ip_risk fv > 0.5 then score2 + 0.1 else score2);
          score4 = (if geo_distance_km fv > 1000 then score3 + 0.2
                    else if geo_distance_km fv > 500 then score3 + 0.1 else score3);
          score5 = (if merchant_risk fv > 0.7 then score4 + 0.2 else score4)
      in min score5 1.0)"

text \<open>\<open>compute_ensemble_score\<close>, with the weights dictionary of the source.\<close>

definition weight_xgb :: real where "weight_xgb = 0.5"
definition weight_nn :: real where "weight_nn = 0.3"
definition weight_rules :: real where "weight_rules = 0.2"

definition compute_ensemble_score :: "real \<Rightarrow> real \<Rightarrow> real \<Rightarrow> real" where
  "compute_ensemble_score xgb_score nn_score rules_score =
     weight_xgb * xgb_score + weight_nn * nn_score + weight_rules * rules_score"

subsection \<open>64-bit floating point\<close>







subsection \<open>Calibration\<close>



subsection \<open>The baseline of the specification\<close>

text \<open>
  The rule table as the specification words it: five independent contributions, summed and
  clamped to at most 1. An absent amount contributes nothing.
\<close>

definition spec_amount_term :: "feature_vector \<Rightarrow> real" where
  "spec_amount_term fv = (case amount fv of None \<Rightarrow> 0 | Some a \<Rightarrow> if a > 10000 then 0.3 else 0)"

definition spec_velocity_term :: "feature_vector \<Rightarrow> real" where
  "spec_velocity_term fv = (if velocity_1h fv > 10 then 0.4 else if velocity_1h fv > 5 then 0.2 else 0)"

definition spec_ip_term :: "feature_vector \<Rightarrow> real" where
  "spec_ip_term fv = (if ip_risk fv > 0.8 then 0.3 else if ip_risk fv > 0.5 then 0.1 else 0)"

definition spec_geo_term :: "feature_vector \<Rightarrow> real" where
  "spec_geo_term fv =
     (if geo_distance_km fv > 1000 then 0.2 else if geo_distance_km fv > 500 then 0.1 else 0)"

definition spec_merchant_term :: "feature_vector \<Rightarrow> real" where
  "spec_merchant_term fv = (if merchant_risk fv > 0.7 then 0.2 else 0)"

definition spec_rules_baseline :: "feature_vector \<Rightarrow> real" where
  "spec_rules_baseline fv =
     min 1 (spec_amount_term fv + spec_velocity_term fv + spec_ip_term fv
            + spec_geo_term fv + spec_merchant_term fv)"

section \<open>Baseline policy (decision-svc/app/policy.py)\<close>

text \<open>
  \<open>ScoreIn\<close> (app/schemas.py): \<open>features\<close> is a \<open>Dict[str, float|int|str]\<close>, so a feature
  is a number or a string. \<open>Settings\<close> (app/config.py) with its defaults.
\<close>

datatype fval = FNum real | FStr string

record score_in =
  si_event_id :: string
  si_entity_id :: string
  channel :: string
  scores :: "string \<rightharpoonup> real"
  features :: "string \<rightharpoonup> fval"




section \<open>The key/value store\<close>

text \<open>
  Redis holds a string or a set under each key. The services write decimal integers
  (\<open>INCR\<close>, \<open>SETEX key ttl 365\<close>), floats (\<open>SETEX key ttl 0.1\<close>) and JSON documents
  (\<open>json.dumps\<close> of a geolocation or of a usual location), and read them back as text
  (\<open>decode_responses=True\<close>). A value is modelled by what its text denotes: \<open>VInt n\<close> is the
  decimal text of \<open>n\<close>, \<open>VReal r\<close> the text of a float, \<open>VGeo\<close> and \<open>VLoc\<close> the two JSON
  documents, \<open>VText\<close> any other text (none of it numeric), \<open>VSet\<close> a set of members.

  An operation runs on the store and returns an exception or a value, with the store as the
  operation has left it: a write made before an exception stays.
\<close>

datatype rval =
    VInt int
  | VReal real
  | VGeo geolocation
  | VLoc real real
  | VText string
  | VSet "string fset"

type_synonym redis = "string \<rightharpoonup> rval"

type_synonym 'a redis_op = "redis \<Rightarrow> (py_error + 'a) \<times> redis"

definition returns :: "'a \<Rightarrow> 'a redis_op" where
  "returns x s = (Inr x, s)"

definition raises :: "py_error \<Rightarrow> 'a redis_op" where
  "raises e s = (Inl e, s)"

definition lift :: "py_error + 'a \<Rightarrow> 'a redis_op" where
  "lift r s = (r, s)"

definition then_do :: "'a redis_op \<Rightarrow> ('a \<Rightarrow> 'b redis_op) \<Rightarrow> 'b redis_op" where
  "then_do m f s = (case m s of (Inl e, s') \<Rightarrow> (Inl e, s') | (Inr x, s') \<Rightarrow> f x s')"

text \<open>\<open>GET\<close> on a set is a WRONGTYPE error; \<open>INCR\<close> takes an absent key as 0 and refuses a
  value that is not a 64-bit signed integer or that would overflow.\<close>

definition redis_get :: "string \<Rightarrow> rval option redis_op" where
  "redis_get key s =
     (case s key of Some (VSet members) \<Rightarrow> (Inl ResponseError, s) | v \<Rightarrow> (Inr v, s))"

definition redis_setex :: "string \<Rightarrow> rval \<Rightarrow> unit redis_op" where
  "redis_setex key v s = (Inr (), s(key \<mapsto> v))"

definition redis_incr :: "string \<Rightarrow> int redis_op" where
  "redis_incr key s =
     (case s key of
        None \<Rightarrow> (Inr 1, s(key \<mapsto> VInt 1))
      | Some (VInt n) \<Rightarrow>
          if - (2 ^ 63) \<le> n \<and> n < 2 ^ 63 - 1 then (Inr (n + 1), s(key \<mapsto> VInt (n + 1)))
          else (Inl ResponseError, s)
      | Some v \<Rightarrow> (Inl ResponseError, s))"

definition redis_expire :: "string \<Rightarrow> nat \<Rightarrow> unit redis_op" where
  "redis_expire key seconds s = (Inr (), s)"

definition redis_scard :: "string \<Rightarrow> nat redis_op" where
  "redis_scard key s =
     (case s key of
        None \<Rightarrow> (Inr 0, s)
      | Some (VSet members) \<Rightarrow> (Inr (fcard members), s)
      | Some v \<Rightarrow> (Inl ResponseError, s))"

definition redis_sadd :: "string \<Rightarrow> string \<Rightarrow> unit redis_op" where
  "redis_sadd key member s =
     (case s key of
        None \<Rightarrow> (Inr (), s(key \<mapsto> VSet {|member|}))
      | Some (VSet members) \<Rightarrow> (Inr (), s(key \<mapsto> VSet (finsert member members)))
      | Some v \<Rightarrow> (Inl ResponseError, s))"


text \<open>Python on a reply: \<open>if reply\<close> (a missing key and the empty text are false),
  \<open>int(reply)\<close> and \<open>float(reply)\<close>.\<close>

definition truthy :: "rval option \<Rightarrow> bool" where
  "truthy v = (case v of None \<Rightarrow> False | Some (VText t) \<Rightarrow> t \<noteq> [] | Some w \<Rightarrow> True)"

definition int_of_reply :: "rval \<Rightarrow> py_error + int" where
  "int_of_reply v = (case v of VInt n \<Rightarrow> Inr n | w \<Rightarrow> Inl ValueError)"

definition float_of_reply :: "rval \<Rightarrow> py_error + real" where
  "float_of_reply v =
     (case v of VInt n \<Rightarrow> Inr (real_of_int n) | VReal r \<Rightarrow> Inr r | w \<Rightarrow> Inl ValueError)"

section \<open>Feature engine (feature-svc/main.py)\<close>

definition velocity_key :: "string \<Rightarrow> string \<Rightarrow> string" where
  "velocity_key entity_id window = ''velocity:'' @ entity_id @ '':'' @ window"

text \<open>\<open>get_velocity_counts\<close>: the loop over the windows fills the dictionary
  \<open>velocity_counts\<close>.\<close>

fun get_velocity_loop ::
  "string \<Rightarrow> string list \<Rightarrow> (string \<rightharpoonup> int) \<Rightarrow> (string \<rightharpoonup> int) redis_op" where
  "get_velocity_loop entity_id [] velocity_counts = returns velocity_counts"
| "get_velocity_loop entity_id (window # rest) velocity_counts =
     then_do (redis_get (velocity_key entity_id window)) (\<lambda>count.
     then_do (if truthy count then lift (int_of_reply (the count)) else returns 0) (\<lambda>n.
     get_velocity_loop entity_id rest (velocity_counts(''velocity_'' @ window \<mapsto> n))))"

definition get_velocity_counts :: "string \<Rightarrow> string list \<Rightarrow> (string \<rightharpoonup> int) redis_op" where
  "get_velocity_counts entity_id time_windows =
     get_velocity_loop entity_id time_windows Map.empty"

fun update_velocity_counts :: "string \<Rightarrow> string list \<Rightarrow> unit redis_op" where
  "update_velocity_counts entity_id [] = returns ()"
| "update_velocity_counts entity_id (window # rest) =
     then_do (redis_incr (velocity_key entity_id window)) (\<lambda>n.
     then_do (if window = ''1h'' then redis_expire (velocity_key entity_id window) 3600
              else if window = ''24h'' then redis_expire (velocity_key entity_id window) 86400
              else if window = ''7d'' then redis_expire (velocity_key entity_id window) 604800
              else returns ()) (\<lambda>u.
     update_velocity_counts entity_id rest))"

definition get_ip_risk_score :: "string option \<Rightarrow> real redis_op" where
  "get_ip_risk_score ip_address =
     (case ip_address of
        None \<Rightarrow> returns 0.0
      | Some ip \<Rightarrow>
          if ip = [] then returns 0.0
          else then_do (redis_get (''ip_risk:'' @ ip)) (\<lambda>cached_score.
               if truthy cached_score then lift (float_of_reply (the cached_score))
               else then_do (redis_setex (''ip_risk:'' @ ip) (VReal 0.1)) (\<lambda>u. returns 0.1)))"

definition get_merchant_risk_score :: "string option \<Rightarrow> real redis_op" where
  "get_merchant_risk_score merchant_id =
     (case merchant_id of
        None \<Rightarrow> returns 0.0
      | Some m \<Rightarrow>
          if m = [] then returns 0.0
          else then_do (redis_get (''merchant_risk:'' @ m)) (\<lambda>cached_score.
               if truthy cached_score then lift (float_of_reply (the cached_score))
               else then_do (redis_setex (''merchant_risk:'' @ m) (VReal 0.05))
                      (\<lambda>u. returns 0.05)))"

definition default_geo :: geolocation where
  "default_geo = \<lparr>country = Some ''US'', region = Some ''CA'', city = Some ''San Francisco'',
                  latitude = Some 37.7749, longitude = Some (- 122.4194)\<rparr>"

definition get_geolocation :: "string option \<Rightarrow> geolocation option redis_op" where
  "get_geolocation ip_address =
     (case ip_address of
        None \<Rightarrow> returns None
      | Some ip \<Rightarrow>
          if ip = [] then returns None
          else then_do (redis_get (''geo:'' @ ip)) (\<lambda>cached_geo.
               if truthy cached_geo
               then (case the cached_geo of VGeo g \<Rightarrow> returns (Some g) | w \<Rightarrow> raises ValueError)
               else then_do (redis_setex (''geo:'' @ ip) (VGeo default_geo)) (\<lambda>u.
                    returns (Some default_geo))))"

text \<open>\<open>calculate_geo_distance\<close>; \<open>geodesic\<close> is geopy's distance in kilometres, an
  argument of the model (it raises on coordinates out of range).\<close>

definition calculate_geo_distance ::
  "(real \<times> real \<Rightarrow> real \<times> real \<Rightarrow> py_error + real) \<Rightarrow> string \<Rightarrow> real \<Rightarrow> real
   \<Rightarrow> real redis_op" where
  "calculate_geo_distance geodesic entity_id current_lat current_lon =
     (if current_lat = 0 \<or> current_lon = 0 then returns 0.0
      else then_do (redis_get (''usual_location:'' @ entity_id)) (\<lambda>usual_location.
           if \<not> truthy usual_location
           then then_do (redis_setex (''usual_location:'' @ entity_id)
                           (VLoc current_lat current_lon))
                  (\<lambda>u. returns 0.0)
           else (case the usual_location of
                   VLoc usual_lat usual_lon \<Rightarrow>
                     lift (geodesic (usual_lat, usual_lon) (current_lat, current_lon))
                 | w \<Rightarrow> raises ValueError)))"

definition get_account_age :: "string \<Rightarrow> int redis_op" where
  "get_account_age entity_id =
     then_do (redis_get (''account_age:'' @ entity_id)) (\<lambda>cached_age.
     if truthy cached_age then lift (int_of_reply (the cached_age))
     else then_do (redis_setex (''account_age:'' @ entity_id) (VInt 365)) (\<lambda>u. returns 365))"

text \<open>
  The event after \<open>TransactionEvent(**event_data)\<close> or \<open>ClaimEvent(**event_data)\<close> has
  accepted it: \<open>ev_amount\<close> is \<open>amount\<close> or \<open>claim_amount\<close>, \<open>ev_currency\<close> the currency or
  \<open>"USD"\<close> for a claim, and the fields a claim does not have are \<open>None\<close>
  (\<open>getattr(event, name, None)\<close>).
\<close>

record parsed_event =
  ev_event_id :: string
  ev_entity_id :: string
  ev_amount :: real
  ev_currency :: string
  ev_channel :: "string option"
  ev_merchant_id :: "string option"
  ev_merchant_category :: "string option"
  ev_ip_address :: "string option"
  ev_device_fingerprint :: "string option"
  ev_session_id :: "string option"

text \<open>The constructor \<open>FeatureVector(...)\<close> checks the \<open>ge\<close> and \<open>le\<close> bounds of the schema.\<close>

definition FeatureVector :: "feature_vector \<Rightarrow> py_error + feature_vector" where
  "FeatureVector fv =
     (if velocity_1h fv \<ge> 0 \<and> velocity_24h fv \<ge> 0 \<and> velocity_7d fv \<ge> 0
         \<and> 0 \<le> ip_risk fv \<and> ip_risk fv \<le> 1 \<and> geo_distance_km fv \<ge> 0
         \<and> 0 \<le> merchant_risk fv \<and> merchant_risk fv \<le> 1 \<and> age_days fv \<ge> 0
      then Inr fv else Inl ValidationError)"

definition dict_get :: "(string \<rightharpoonup> 'a) \<Rightarrow> string \<Rightarrow> 'a \<Rightarrow> 'a" where
  "dict_get d k dflt = (case d k of None \<Rightarrow> dflt | Some v \<Rightarrow> v)"

text \<open>The distance step of \<open>process_event\<close>:
  \<open>if ip_geolocation and ip_geolocation.latitude and ip_geolocation.longitude\<close>.\<close>

definition event_geo_distance ::
  "(real \<times> real \<Rightarrow> real \<times> real \<Rightarrow> py_error + real) \<Rightarrow> string \<Rightarrow> geolocation option
   \<Rightarrow> real redis_op" where
  "event_geo_distance geodesic entity_id geo =
     (case geo of
        None \<Rightarrow> returns 0.0
      | Some g \<Rightarrow>
          (case (latitude g, longitude g) of
             (Some lat, Some lon) \<Rightarrow>
               if lat \<noteq> 0 \<and> lon \<noteq> 0
               then calculate_geo_distance geodesic entity_id lat lon
               else returns 0.0
           | other \<Rightarrow> returns 0.0))"

text \<open>
  \<open>process_event\<close>. The result \<open>Inr fv\<close> is the feature vector sent to
  \<open>features.online.v1\<close>; \<open>Inl e\<close> is an exception caught by the handler of the function, which
  logs it and sends nothing.
\<close>

definition process_event ::
  "(real \<times> real \<Rightarrow> real \<times> real \<Rightarrow> py_error + real) \<Rightarrow> parsed_event
   \<Rightarrow> feature_vector redis_op" where
  "process_event geodesic event =
     (let entity_id = ev_entity_id event;
          time_windows = [''1h'', ''24h'', ''7d'']
      in then_do (get_velocity_counts entity_id time_windows) (\<lambda>velocity_counts.
         then_do (update_velocity_counts entity_id time_windows) (\<lambda>u.
         then_do (get_ip_risk_score (ev_ip_address event)) (\<lambda>ip_risk.
         then_do (get_merchant_risk_score (ev_merchant_id event)) (\<lambda>merchant_risk.
         then_do (get_geolocation (ev_ip_address event)) (\<lambda>ip_geolocation.
         then_do (event_geo_distance geodesic entity_id ip_geolocation) (\<lambda>geo_distance.
         then_do (get_account_age entity_id) (\<lambda>age_days.
         lift (FeatureVector
           \<lparr>fv_event_id = ev_event_id event, fv_entity_id = entity_id,
            amount = Some (ev_amount event), currency = Some (ev_currency event),
            fv_channel = ev_channel event,
            velocity_1h = dict_get velocity_counts ''velocity_1h'' 0,
            velocity_24h = dict_get velocity_counts ''velocity_24h'' 0,
            velocity_7d = dict_get velocity_counts ''velocity_7d'' 0,
            ip_risk = ip_risk, ip_geolocation = ip_geolocation,
            geo_distance_km = geo_distance, merchant_risk = merchant_risk,
            merchant_category = ev_merchant_category event, age_days = age_days,
            fv_device_fingerprint = ev_device_fingerprint event,
            fv_session_id = ev_session_id event\<rparr>)))))))))"

text \<open>The number a velocity key holds: an absent key counts as 0, as \<open>INCR\<close> and
  \<open>get_velocity_counts\<close> both take it.\<close>

definition counter_value :: "redis \<Rightarrow> string \<Rightarrow> int" where
  "counter_value s key = (case s key of Some (VInt n) \<Rightarrow> n | other \<Rightarrow> 0)"

section \<open>Decision engine (decision-svc/main.py)\<close>

text \<open>
  \<open>check_graph_anomaly\<close>. The handler of the function turns every exception into
  \<open>False\<close>.
\<close>

definition check_graph_anomaly :: "string \<Rightarrow> string option \<Rightarrow> redis \<Rightarrow> bool \<times> redis" where
  "check_graph_anomaly entity_id device_fingerprint s =
     (case device_fingerprint of
        None \<Rightarrow> (False, s)
      | Some device \<Rightarrow>
          if device = [] then (False, s)
          else (let device_accounts_key = ''device_accounts:'' @ device
                in case then_do (redis_scard device_accounts_key) (\<lambda>account_count.
                        then_do (redis_sadd device_accounts_key entity_id) (\<lambda>u.
                        then_do (redis_expire device_accounts_key (86400 * 30)) (\<lambda>u.
                        if account_count > 5 then returns True else returns False))) s of
                     (Inr anomaly, s') \<Rightarrow> (anomaly, s')
                   | (Inl e, s') \<Rightarrow> (False, s')))"


text \<open>
  The policy dictionary. A condition is a dictionary in which each of the four keys is
  present or not; of \<open>watchlist_hit\<close>, \<open>conflicting_signals\<close> and \<open>velocity_normal\<close> the
  source tests only the presence. A rule group has its conditions, its action (any string)
  and, optionally, its reason codes.
\<close>

record score_condition =
  gte :: "real option"
  lt :: "real option"

record condition =
  calibrated_score :: "score_condition option"
  watchlist_hit :: bool
  conflicting_signals :: bool
  velocity_normal :: bool

record rule_config =
  rc_conditions :: "condition list"
  rc_action :: string
  rc_reason_codes :: "string list option"

record policy =
  policy_version :: string
  policy_rules :: "string \<rightharpoonup> rule_config"

record model_scores =
  xgb :: real
  nn :: real
  rules :: real
  ensemble :: real
  calibrated :: real






text \<open>\<open>str(uuid.uuid4())\<close>: the 128 bits as 32 lower-case hexadecimal digits, grouped
  8-4-4-4-12; \<open>.upper()\<close> on ASCII text.\<close>

definition hex_digit :: "nat \<Rightarrow> char" where
  "hex_digit n = ''0123456789abcdef'' ! (n mod 16)"










definition fallback_policy :: policy where
  "fallback_policy =
     \<lparr>policy_version = ''v1.0'',
      policy_rules =
        [''allow'' \<mapsto>
           \<lparr>rc_conditions =
              [\<lparr>calibrated_score = Some \<lparr>gte = None, lt = Some 1.0\<rparr>, watchlist_hit = False,
                conflicting_signals = False, velocity_normal = False\<rparr>],
            rc_action = ''allow'',
            rc_reason_codes = Some [''default_allow'']\<rparr>]\<rparr>"

section \<open>Auditor (audit-svc/main.py)\<close>

subsection \<open>JSON documents and \<open>json.dumps\<close>\<close>

text \<open>
  A JSON value as Python holds it after \<open>json.loads\<close>: a dictionary keeps its keys in
  insertion order, so an object is an association list. A number is carried as the text
  \<open>json.dumps\<close> prints for it.

  \<open>dumps sort_keys indent level\<close> is \<open>json.dumps(v, sort_keys=\<dots>, indent=\<dots>)\<close> at nesting
  depth \<open>level\<close>, with the defaults of the library: \<open>ensure_ascii\<close> (every character outside
  the printable ASCII range is escaped), the separators \<open>","\<close> and \<open>": "\<close>, each item on a
  line of its own. With \<open>sort_keys\<close> the items of every object are sorted by key.
\<close>

datatype json =
    JNull
  | JBool bool
  | JNum string
  | JStr string
  | JArr "json list"
  | JObj "(string \<times> json) list"

definition escape_char :: "char \<Rightarrow> string" where
  "escape_char c =
     (if c = CHR 0x22 then [CHR 0x5C, CHR 0x22]
      else if c = CHR 0x5C then [CHR 0x5C, CHR 0x5C]
      else if c = CHR 0x0A then [CHR 0x5C, CHR ''n'']
      else if c = CHR 0x0D then [CHR 0x5C, CHR ''r'']
      else if c = CHR 0x09 then [CHR 0x5C, CHR ''t'']
      else if c = CHR 0x08 then [CHR 0x5C, CHR ''b'']
      else if c = CHR 0x0C then [CHR 0x5C, CHR ''f'']
      else if (of_char c :: nat) < 32 \<or> (of_char c :: nat) > 126
      then [CHR 0x5C, CHR ''u'', CHR ''0'', CHR ''0'',
            hex_digit ((of_char c :: nat) div 16), hex_digit (of_char c :: nat)]
      else [c])"

definition encode_basestring_ascii :: "string \<Rightarrow> string" where
  "encode_basestring_ascii t = [CHR 0x22] @ concat (map escape_char t) @ [CHR 0x22]"

definition newline_indent :: "nat \<Rightarrow> nat \<Rightarrow> string" where
  "newline_indent indent level = [CHR 0x0A] @ replicate (indent * level) CHR '' ''"

fun join :: "string \<Rightarrow> string list \<Rightarrow> string" where
  "join sep [] = []"
| "join sep [x] = x"
| "join sep (x # y # rest) = x @ sep @ join sep (y # rest)"

function dumps :: "bool \<Rightarrow> nat \<Rightarrow> nat \<Rightarrow> json \<Rightarrow> string" where
  "dumps sort_keys indent level JNull = ''null''"
| "dumps sort_keys indent level (JBool b) = (if b then ''true'' else ''false'')"
| "dumps sort_keys indent level (JNum t) = t"
| "dumps sort_keys indent level (JStr t) = encode_basestring_ascii t"
| "dumps sort_keys indent level (JArr xs) =
     (if xs = [] then ''[]''
      else ''['' @ newline_indent indent (level + 1)
           @ join ('','' @ newline_indent indent (level + 1))
               (map (dumps sort_keys indent (level + 1)) xs)
           @ newline_indent indent level @ '']'')"
| "dumps sort_keys indent level (JObj kvs) =
     (if kvs = [] then ''{}''
      else ''{'' @ newline_indent indent (level + 1)
           @ join ('','' @ newline_indent indent (level + 1))
               (map (\<lambda>(k, v). encode_basestring_ascii k @ '': ''
                                @ dumps sort_keys indent (level + 1) v)
                    (if sort_keys then sort_key fst kvs else kvs))
           @ newline_indent indent level @ ''}'')"
  by pat_completeness auto
termination
proof (relation "measure (\<lambda>(sort_keys, indent, level, j). size j)")
  show "wf (measure (\<lambda>(sort_keys, indent, level, j). size j))" by simp
next
  fix sort_keys :: bool and indent level :: nat and xs :: "json list" and x :: json
  assume "x \<in> set xs"
  then have "size x \<le> size_list size xs" by (rule size_list_estimation') simp
  then show "((sort_keys, indent, level + 1, x), (sort_keys, indent, level, JArr xs))
             \<in> measure (\<lambda>(sort_keys, indent, level, j). size j)" by simp
next
  fix sort_keys :: bool and indent level :: nat and kvs :: "(string \<times> json) list"
    and kv :: "string \<times> json" and k :: string and v :: json
  assume "kv \<in> set (if sort_keys then sort_key fst kvs else kvs)" and "(k, v) = kv"
  then have "(k, v) \<in> set kvs" by (simp split: if_splits)
  then have "size v \<le> size_list (size_prod (\<lambda>x. 0) size) kvs"
    by (rule size_list_estimation') simp
  then show "((sort_keys, indent, level + 1, v), (sort_keys, indent, level, JObj kvs))
             \<in> measure (\<lambda>(sort_keys, indent, level, j). size j)" by simp
qed

subsection \<open>Evidence bundles and the audit index\<close>

text \<open>
  The object store maps an object key to the document stored there. \<open>put_object\<close> receives
  the text \<open>json.dumps(evidence_data, indent=2)\<close> and \<open>get_audit_bundle\<close> applies
  \<open>json.loads\<close> to what it reads, which gives back the document with its keys in the order
  written; the store is modelled as holding that document. The index is the list of the
  rows of \<open>audit_events\<close>, oldest first. \<open>hashlib.sha256(\<dots>).hexdigest()\<close> is the argument
  \<open>sha256_hexdigest\<close>; the text it receives is ASCII, so encoding it to UTF-8 changes
  nothing.
\<close>

type_synonym minio = "string \<rightharpoonup> json"

record evidence_bundle =
  eb_bundle_id :: string
  eb_event_id :: string
  eb_evidence_type :: string
  eb_data :: json
  eb_hash :: string
  eb_size_bytes :: nat

record audit_event =
  ae_event_id :: string
  ae_event_type :: string
  ae_entity_id :: "string option"
  ae_user_id :: "string option"
  ae_action :: string
  ae_details :: "(string \<times> json) list"

record audit_row =
  row_event_id :: string
  row_event_type :: string
  row_entity_id :: "string option"
  row_user_id :: "string option"
  row_action :: string
  row_details :: "(string \<times> json) list"
  row_evidence_hash :: "string option"
  row_evidence_path :: "string option"

type_synonym postgres = "audit_row list"

definition dict_get_json :: "(string \<times> json) list \<Rightarrow> string \<Rightarrow> json \<Rightarrow> json" where
  "dict_get_json d k dflt = (case map_of d k of None \<Rightarrow> dflt | Some v \<Rightarrow> v)"

text \<open>A \<open>str\<close> field of a pydantic model (version 1, which the shared schemas are written
  for) accepts a string, a number or a boolean, converted with \<open>str\<close>.\<close>

definition pydantic_str :: "json \<Rightarrow> py_error + string" where
  "pydantic_str v =
     (case v of
        JStr t \<Rightarrow> Inr t
      | JNum t \<Rightarrow> Inr t
      | JBool b \<Rightarrow> Inr (if b then ''True'' else ''False'')
      | other \<Rightarrow> Inl ValidationError)"

definition pydantic_optional_str :: "json \<Rightarrow> py_error + string option" where
  "pydantic_optional_str v =
     (case v of
        JNull \<Rightarrow> Inr None
      | other \<Rightarrow> (case pydantic_str v of Inl e \<Rightarrow> Inl e | Inr t \<Rightarrow> Inr (Some t)))"

definition calculate_hash :: "(string \<Rightarrow> string) \<Rightarrow> string \<Rightarrow> string" where
  "calculate_hash sha256_hexdigest data = sha256_hexdigest data"

text \<open>The dictionary \<open>evidence_data\<close> of \<open>store_evidence_bundle\<close>, keys in the order of the
  dictionary display.\<close>

definition evidence_document ::
  "string \<Rightarrow> json \<Rightarrow> string \<Rightarrow> (string \<times> json) list \<Rightarrow> string \<Rightarrow> json" where
  "evidence_document bundle_id event_id evidence_type data created_at =
     JObj [(''bundle_id'', JStr bundle_id),
           (''event_id'', event_id),
           (''evidence_type'', JStr evidence_type),
           (''data'', JObj data),
           (''created_at'', JStr created_at),
           (''metadata'', JObj [(''service'', JStr ''audit-svc''), (''version'', JStr ''1.0.0'')])]"

text \<open>
  \<open>store_evidence_bundle\<close>: \<open>uuid4\<close> is \<open>str(uuid.uuid4())\<close>, \<open>utcnow_iso\<close> is
  \<open>datetime.utcnow().isoformat()\<close> and \<open>date_path\<close> is \<open>strftime("%Y/%m/%d")\<close> of the clock.
  The object is written before \<open>EvidenceBundle(...)\<close> validates its fields.
\<close>

definition store_evidence_bundle ::
  "(string \<Rightarrow> string) \<Rightarrow> string \<Rightarrow> string \<Rightarrow> string \<Rightarrow> (string \<times> json) list \<Rightarrow> string
   \<Rightarrow> minio \<Rightarrow> (py_error + evidence_bundle) \<times> minio" where
  "store_evidence_bundle sha256_hexdigest uuid4 utcnow_iso date_path data evidence_type store =
     (let bundle_id = uuid4;
          event_id = dict_get_json data ''event_id'' (JStr ''unknown'');
          evidence_data = evidence_document bundle_id event_id evidence_type data utcnow_iso;
          json_data = dumps False 2 0 evidence_data;
          data_hash = calculate_hash sha256_hexdigest json_data;
          object_key = date_path @ ''/'' @ bundle_id @ ''.json'';
          store' = store(object_key \<mapsto> evidence_data)
      in case pydantic_str event_id of
           Inl e \<Rightarrow> (Inl e, store')
         | Inr event_id_str \<Rightarrow>
             (Inr \<lparr>eb_bundle_id = bundle_id, eb_event_id = event_id_str,
                   eb_evidence_type = evidence_type, eb_data = evidence_data,
                   eb_hash = data_hash, eb_size_bytes = length json_data\<rparr>, store'))"

text \<open>\<open>log_audit_event\<close> appends the row; the path is computed again from the clock.\<close>

definition log_audit_event ::
  "string \<Rightarrow> audit_event \<Rightarrow> evidence_bundle option \<Rightarrow> postgres \<Rightarrow> postgres" where
  "log_audit_event date_path audit_event evidence_bundle db =
     db @ [\<lparr>row_event_id = ae_event_id audit_event,
             row_event_type = ae_event_type audit_event,
             row_entity_id = ae_entity_id audit_event,
             row_user_id = ae_user_id audit_event,
             row_action = ae_action audit_event,
             row_details = ae_details audit_event,
             row_evidence_hash = map_option eb_hash evidence_bundle,
             row_evidence_path =
               map_option (\<lambda>b. date_path @ ''/'' @ eb_bundle_id b @ ''.json'') evidence_bundle\<rparr>]"

text \<open>
  The endpoint \<open>POST /audit/decision\<close>. \<open>fresh_event_uuid\<close> is the \<open>str(uuid.uuid4())\<close> used
  when the payload has no \<open>event_id\<close>. The result is the hash returned to the caller; the
  handler of the endpoint answers every exception with status 500.
\<close>

definition log_decision ::
  "(string \<Rightarrow> string) \<Rightarrow> string \<Rightarrow> string \<Rightarrow> string \<Rightarrow> string \<Rightarrow> string
   \<Rightarrow> (string \<times> json) list \<Rightarrow> minio \<times> postgres \<Rightarrow> (py_error + string) \<times> minio \<times> postgres" where
  "log_decision sha256_hexdigest fresh_event_uuid uuid4 utcnow_iso date_path_store date_path_log
       decision_data st =
     (let event_id = dict_get_json decision_data ''event_id'' (JStr fresh_event_uuid)
      in case (pydantic_str event_id,
               pydantic_optional_str (dict_get_json decision_data ''entity_id'' JNull),
               pydantic_optional_str (dict_get_json decision_data ''user_id'' JNull),
               pydantic_str (dict_get_json decision_data ''action'' (JStr ''decision_made''))) of
           (Inr eid, Inr entity, Inr user, Inr act) \<Rightarrow>
             (let audit_event = \<lparr>ae_event_id = eid, ae_event_type = ''decision'',
                                  ae_entity_id = entity, ae_user_id = user, ae_action = act,
                                  ae_details = decision_data\<rparr>
              in case store_evidence_bundle sha256_hexdigest uuid4 utcnow_iso date_path_store
                        decision_data ''decision'' (fst st) of
                   (Inl e, store') \<Rightarrow> (Inl e, store', snd st)
                 | (Inr evidence_bundle, store') \<Rightarrow>
                     (Inr (eb_hash evidence_bundle), store',
                      log_audit_event date_path_log audit_event (Some evidence_bundle) (snd st)))
         | other \<Rightarrow> (Inl ValidationError, st))"

text \<open>
  \<open>get_audit_bundle\<close>: the first row of the event (\<open>fetchone\<close>), 404 when there is none, and
  the document at the row's path, \<open>None\<close> when the row has no path or the read fails.
\<close>

record audit_bundle_view =
  view_event_id :: string
  view_evidence_hash :: "string option"
  view_evidence_path :: "string option"
  view_evidence_data :: "json option"

definition get_audit_bundle ::
  "string \<Rightarrow> minio \<times> postgres \<Rightarrow> py_error + audit_bundle_view" where
  "get_audit_bundle event_id st =
     (case find (\<lambda>r. row_event_id r = event_id) (snd st) of
        None \<Rightarrow> Inl HTTP404
      | Some row \<Rightarrow>
          Inr \<lparr>view_event_id = row_event_id row,
               view_evidence_hash = row_evidence_hash row,
               view_evidence_path = row_evidence_path row,
               view_evidence_data =
                 (case row_evidence_path row of
                    None \<Rightarrow> None
                  | Some p \<Rightarrow> if p = [] then None else fst st p)\<rparr>)"

text \<open>Python's truth value of a loaded document (\<open>if not audit_data.get("evidence_data")\<close>).\<close>

definition json_truthy :: "json \<Rightarrow> bool" where
  "json_truthy v =
     (case v of
        JNull \<Rightarrow> False
      | JBool b \<Rightarrow> b
      | JNum t \<Rightarrow> (\<exists>c \<in> set (takeWhile (\<lambda>c. c \<noteq> CHR ''e'' \<and> c \<noteq> CHR ''E'') t).
                      c \<in> set ''123456789'')
      | JStr t \<Rightarrow> t \<noteq> []
      | JArr xs \<Rightarrow> xs \<noteq> []
      | JObj kvs \<Rightarrow> kvs \<noteq> [])"

record integrity_report =
  rep_event_id :: string
  integrity_status :: string
  calculated_hash :: "string option"
  stored_hash :: "string option"

definition verify_audit_integrity ::
  "(string \<Rightarrow> string) \<Rightarrow> string \<Rightarrow> minio \<times> postgres \<Rightarrow> py_error + integrity_report" where
  "verify_audit_integrity sha256_hexdigest event_id st =
     (case get_audit_bundle event_id st of
        Inl e \<Rightarrow> Inl e
      | Inr audit_data \<Rightarrow>
          (case view_evidence_data audit_data of
             None \<Rightarrow> Inr \<lparr>rep_event_id = event_id, integrity_status = ''no_evidence'',
                          calculated_hash = None, stored_hash = None\<rparr>
           | Some evidence_data \<Rightarrow>
               if \<not> json_truthy evidence_data
               then Inr \<lparr>rep_event_id = event_id, integrity_status = ''no_evidence'',
                         calculated_hash = None, stored_hash = None\<rparr>
               else (let evidence_json = dumps True 2 0 evidence_data;
                         calculated = calculate_hash sha256_hexdigest evidence_json;
                         stored = view_evidence_hash audit_data;
                         integrity_ok = (Some calculated = stored)
                     in Inr \<lparr>rep_event_id = event_id,
                              integrity_status = (if integrity_ok then ''verified''
                                                  else ''compromised''),
                              calculated_hash = Some calculated, stored_hash = stored\<rparr>)))"

section \<open>Monitor (model-monitor-svc)\<close>

subsection \<open>app/metrics.py\<close>

definition py_min :: "real list \<Rightarrow> py_error + real" where
  "py_min xs = (case xs of [] \<Rightarrow> Inl ValueError | x # rest \<Rightarrow> Inr (fold min rest x))"

definition py_max :: "real list \<Rightarrow> py_error + real" where
  "py_max xs = (case xs of [] \<Rightarrow> Inl ValueError | x # rest \<Rightarrow> Inr (fold max rest x))"

text \<open>\<open>sum(1 for v in xs if lo <= v < hi) / len(xs)\<close>\<close>

definition bin_fraction :: "real list \<Rightarrow> real \<Rightarrow> real \<Rightarrow> real" where
  "bin_fraction xs lo hi =
     real (length (filter (\<lambda>v. lo \<le> v \<and> v < hi) xs)) / real (length xs)"

text \<open>The body of the loop of \<open>psi\<close> for bin \<open>i\<close>: what is added to \<open>s\<close>.\<close>

definition psi_term :: "real list \<Rightarrow> real list \<Rightarrow> real \<Rightarrow> real \<Rightarrow> nat \<Rightarrow> real" where
  "psi_term ref cur mn w i =
     (let lo = mn + real i * w; hi = mn + (real i + 1) * w;
          rp = max (1 / 10 ^ 6) (bin_fraction ref lo hi);
          cp = max (1 / 10 ^ 6) (bin_fraction cur lo hi)
      in (rp - cp) * (if cp = 0 then 0 else ln (rp / cp)))"

definition psi :: "real list \<Rightarrow> real list \<Rightarrow> int \<Rightarrow> py_error + real" where
  "psi ref cur bins =
     (if int (length ref) < bins \<or> int (length cur) < bins then Inr 0
      else case (py_min ref, py_min cur, py_max ref, py_max cur) of
             (Inr mn_r, Inr mn_c, Inr mx_r, Inr mx_c) \<Rightarrow>
               (let mn = min mn_r mn_c; mx = max mx_r mx_c
                in if mx = mn then Inr 0
                   else if bins = 0 then Inl ZeroDivisionError
                   else (let w = (mx - mn) / real_of_int bins
                         in Inr (fold (\<lambda>i s. s + psi_term ref cur mn w i) [0 ..< nat bins] 0)))
           | other \<Rightarrow> Inl ValueError)"

definition brier_score :: "int list \<Rightarrow> real list \<Rightarrow> real" where
  "brier_score y_true y_prob =
     (if y_true = [] \<or> y_prob = [] \<or> length y_true \<noteq> length y_prob then - 1
      else sum_list (map (\<lambda>(y, p). (p - real_of_int y) ^ 2) (zip y_true y_prob))
           / real (length y_true))"

subsection \<open>The Brier gauge and its alert (app/main.py, \<open>prom_metrics\<close>)\<close>

record monitor_settings =
  PSI_THRESHOLD :: real
  BRIER_THRESHOLD :: real

definition default_monitor_settings :: monitor_settings where
  "default_monitor_settings = \<lparr>PSI_THRESHOLD = 0.2, BRIER_THRESHOLD = 0.25\<rparr>"

text \<open>\<open>xs[-n:]\<close>\<close>

definition py_last :: "nat \<Rightarrow> 'a list \<Rightarrow> 'a list" where
  "py_last n xs = drop (length xs - n) xs"

definition mock_labels :: "real list \<Rightarrow> int list" where
  "mock_labels ss = map (\<lambda>s. if s > 0.5 then 1 else 0) ss"

text \<open>The Brier part of \<open>prom_metrics\<close>: nothing below 100 scores, else the value set on the
  gauge and whether the calibration alert is raised.\<close>

definition prom_metrics_brier :: "monitor_settings \<Rightarrow> real list \<Rightarrow> (real \<times> bool) option" where
  "prom_metrics_brier cfg SCORES =
     (if length SCORES \<ge> 100
      then (let labels = mock_labels (py_last 100 SCORES);
                mock_scores = py_last 100 SCORES;
                brier_val = brier_score labels mock_scores
            in Some (brier_val, brier_val > BRIER_THRESHOLD cfg))
      else None)"

subsection \<open>main.py\<close>

text \<open>
  \<open>sklearn.metrics.brier_score_loss\<close> by its documentation: the mean of the squared
  differences between outcome and predicted probability; \<open>None\<close> is an exception of the
  library, which \<open>calculate_brier_score\<close> turns into \<open>0.0\<close>. \<open>calculate_calibration_metrics\<close>
  returns the value set on the gauge of each model that has more than 100 recent scores.
\<close>

definition brier_score_loss :: "int list \<Rightarrow> real list \<Rightarrow> real option" where
  "brier_score_loss y_true y_prob =
     (if y_true = [] \<or> length y_true \<noteq> length y_prob then None
      else Some (sum_list (map (\<lambda>(y, p). (real_of_int y - p) ^ 2) (zip y_true y_prob))
                 / real (length y_true)))"

definition calculate_brier_score :: "int list \<Rightarrow> real list \<Rightarrow> real" where
  "calculate_brier_score y_true y_prob =
     (case brier_score_loss y_true y_prob of Some b \<Rightarrow> b | None \<Rightarrow> 0.0)"

definition calculate_calibration_metrics ::
  "(string \<Rightarrow> real list) \<Rightarrow> (string \<times> real) list" where
  "calculate_calibration_metrics recent_scores =
     concat (map (\<lambda>model_name.
        if length (recent_scores model_name) > 100
        then (let scores = recent_scores model_name;
                  true_labels = map (\<lambda>s. if s > 0.5 then 1 else 0) scores
              in [(model_name, calculate_brier_score true_labels scores)])
        else []) [''xgb'', ''nn'', ''ensemble''])"

section \<open>Concrete inputs\<close>





text \<open>An event of an entity that has two events in the last hour and five in the last day,
  and none yet in the seven-day window.\<close>

definition event_acct7 :: parsed_event where
  "event_acct7 =
     \<lparr>ev_event_id = ''e-1'', ev_entity_id = ''acct-7'', ev_amount = 120,
      ev_currency = ''USD'', ev_channel = Some ''mobile'', ev_merchant_id = Some ''m1'',
      ev_merchant_category = None, ev_ip_address = Some ''10.0.0.1'',
      ev_device_fingerprint = None, ev_session_id = None\<rparr>"

definition store_acct7 :: redis where
  "store_acct7 = [''velocity:acct-7:1h'' \<mapsto> VInt 2, ''velocity:acct-7:24h'' \<mapsto> VInt 5]"

definition flat_geodesic :: "real \<times> real \<Rightarrow> real \<times> real \<Rightarrow> py_error + real" where
  "flat_geodesic a b = Inr 0"

text \<open>A device already linked to five accounts.\<close>

definition five_accounts :: "string fset" where
  "five_accounts = {|''acct-1'', ''acct-2'', ''acct-3'', ''acct-4'', ''acct-5''|}"

definition store_dev1 :: redis where
  "store_dev1 = [''device_accounts:dev-1'' \<mapsto> VSet five_accounts]"




text \<open>A decision posted to \<open>/audit/decision\<close> on empty stores, then verified.\<close>

definition decision_payload :: "(string \<times> json) list" where
  "decision_payload = [(''event_id'', JStr ''evt-1''), (''action'', JStr ''allow'')]"

definition stored_document :: json where
  "stored_document =
     evidence_document ''b-1'' (JStr ''evt-1'') ''decision'' decision_payload
       ''2024-01-01T00:00:00''"

definition after_log_decision ::
  "(string \<Rightarrow> string) \<Rightarrow> (py_error + string) \<times> minio \<times> postgres" where
  "after_log_decision sha256_hexdigest =
     log_decision sha256_hexdigest ''u-0'' ''b-1'' ''2024-01-01T00:00:00'' ''2024/01/01''
       ''2024/01/01'' decision_payload (Map.empty, [])"

section \<open>Theorems\<close>

subsection \<open>Rules score\<close>

lemma spec_terms_nonneg:
  "0 \<le> spec_amount_term fv" "0 \<le> spec_velocity_term fv" "0 \<le> spec_ip_term fv"
  "0 \<le> spec_geo_term fv" "0 \<le> spec_merchant_term fv"
  by (simp_all add: spec_amount_term_def spec_velocity_term_def spec_ip_term_def
      spec_geo_term_def spec_merchant_term_def split: option.split)

lemma compute_rule_score_sum:
  "compute_rule_score fv =
     min (spec_amount_term fv + spec_velocity_term fv + spec_ip_term fv
          + spec_geo_term fv + spec_merchant_term fv) 1"
proof -
  define s1 :: real where
    "s1 = (if (case amount fv of None \<Rightarrow> False | Some a \<Rightarrow> a \<noteq> 0 \<and> a > 10000)
           then 0 + 0.3 else 0)"
  define s2 where
    "s2 = (if velocity_1h fv > 10 then s1 + 0.4 else if velocity_1h fv > 5 then s1 + 0.2 else s1)"
  define s3 where
    "s3 = (if ip_risk fv > 0.8 then s2 + 0.3 else if ip_risk fv > 0.5 then s2 + 0.1 else s2)"
  define s4 where
    "s4 = (if geo_distance_km fv > 1000 then s3 + 0.2
           else if geo_distance_km fv > 500 then s3 + 0.1 else s3)"
  define s5 where "s5 = (if merchant_risk fv > 0.7 then s4 + 0.2 else s4)"
  have c: "compute_rule_score fv = min s5 1.0"
    by (simp only: compute_rule_score_def Let_def s1_def s2_def s3_def s4_def s5_def)
  have e1: "s1 = spec_amount_term fv"
    by (simp add: s1_def spec_amount_term_def split: option.split)
  have e2: "s2 = s1 + spec_velocity_term fv" by (simp add: s2_def spec_velocity_term_def)
  have e3: "s3 = s2 + spec_ip_term fv" by (simp add: s3_def spec_ip_term_def)
  have e4: "s4 = s3 + spec_geo_term fv" by (simp add: s4_def spec_geo_term_def)
  have e5: "s5 = s4 + spec_merchant_term fv" by (simp add: s5_def spec_merchant_term_def)
  show ?thesis unfolding c e5 e4 e3 e2 e1 by simp
qed

text \<open>
  C4. For every feature vector the rules score is the sum of the five baseline contributions
  (+0.3 amount above 10000; +0.4 / +0.2 velocity above 10 / 5; +0.3 / +0.1 IP risk above
  0.8 / 0.5; +0.2 / +0.1 distance above 1000 / 500 km; +0.2 merchant risk above 0.7), clamped
  to at most 1, and it lies between 0 and 1.
\<close>

theorem rules_score_baseline:
  "compute_rule_score fv = spec_rules_baseline fv
   \<and> 0 \<le> compute_rule_score fv \<and> compute_rule_score fv \<le> 1"
proof -
  let ?s = "spec_amount_term fv + spec_velocity_term fv + spec_ip_term fv
            + spec_geo_term fv + spec_merchant_term fv"
  have eq: "compute_rule_score fv = min ?s 1" by (rule compute_rule_score_sum)
  have nn: "0 \<le> ?s" using spec_terms_nonneg [of fv] by linarith
  show ?thesis using nn by (simp add: eq spec_rules_baseline_def min.commute)
qed

text \<open>The stub of score-svc/app/models.py is another rule table (\<open>rules_score\<close>: +0.35 for
  velocity from 8, +0.35 for IP risk from 0.8, +0.2 for an amount from 2000); the claim is
  about the scorer of main.py.\<close>

subsection \<open>Ensemble\<close>

text \<open>
  C5. For every triple of sub-scores the ensemble score is within 1e-9 of
  0.5 * xgb + 0.3 * nn + 0.2 * rules, and the three weights used sum to 1 within 1e-9.
\<close>

theorem ensemble_weight_consistency:
  "\<bar>compute_ensemble_score x n r - (0.5 * x + 0.3 * n + 0.2 * r)\<bar> < 1 / 10 ^ 9
   \<and> \<bar>weight_xgb + weight_nn + weight_rules - 1\<bar> < 1 / 10 ^ 9"
  by (simp add: compute_ensemble_score_def weight_xgb_def weight_nn_def weight_rules_def)

subsection \<open>Rounding\<close>

























subsection \<open>Calibration\<close>













subsection \<open>Baseline policy\<close>




subsection \<open>Velocity counters\<close>

lemma then_do_Inr:
  assumes "then_do m f s = (Inr y, s')"
  obtains x s1 where "m s = (Inr x, s1)" "f x s1 = (Inr y, s')"
  using assms by (auto simp: then_do_def split: prod.splits sum.splits)

lemma velocity_key_inj [simp]: "velocity_key e w = velocity_key e w' \<longleftrightarrow> w = w'"
  by (simp add: velocity_key_def)

lemma read_counter:
  assumes "then_do (redis_get (velocity_key e w))
             (\<lambda>count. if truthy count then lift (int_of_reply (the count)) else returns 0) s
           = (Inr n, s')"
  shows "s' = s \<and> (truthy (s (velocity_key e w)) \<longrightarrow> s (velocity_key e w) = Some (VInt n))
         \<and> (\<not> truthy (s (velocity_key e w)) \<longrightarrow> n = 0)"
  using assms
  by (auto simp: then_do_def redis_get_def lift_def returns_def int_of_reply_def truthy_def
      split: option.splits rval.splits if_splits)

lemma get_velocity_counts_three:
  assumes "get_velocity_counts e [''1h'', ''24h'', ''7d''] s = (Inr vc, s')"
  shows "s' = s
     \<and> (\<forall>w \<in> {''1h'', ''24h'', ''7d''}.
           \<exists>n. vc (''velocity_'' @ w) = Some n
             \<and> (truthy (s (velocity_key e w)) \<longrightarrow> s (velocity_key e w) = Some (VInt n))
             \<and> (\<not> truthy (s (velocity_key e w)) \<longrightarrow> n = 0))"
proof -
  from assms obtain c1 s1 n1 s1' c2 s2 n2 s2' c3 s3 n3 s3' where
    g1: "redis_get (velocity_key e ''1h'') s = (Inr c1, s1)"
    and p1: "(if truthy c1 then lift (int_of_reply (the c1)) else returns 0) s1 = (Inr n1, s1')"
    and g2: "redis_get (velocity_key e ''24h'') s1' = (Inr c2, s2)"
    and p2: "(if truthy c2 then lift (int_of_reply (the c2)) else returns 0) s2 = (Inr n2, s2')"
    and g3: "redis_get (velocity_key e ''7d'') s2' = (Inr c3, s3)"
    and p3: "(if truthy c3 then lift (int_of_reply (the c3)) else returns 0) s3 = (Inr n3, s3')"
    and fin: "returns (Map.empty(''velocity_1h'' \<mapsto> n1, ''velocity_24h'' \<mapsto> n2,
                 ''velocity_7d'' \<mapsto> n3)) s3' = (Inr vc, s')"
    unfolding get_velocity_counts_def get_velocity_loop.simps
    by (elim then_do_Inr) (simp add: fun_upd_def)
  have r1: "s1' = s \<and> (truthy (s (velocity_key e ''1h''))
                \<longrightarrow> s (velocity_key e ''1h'') = Some (VInt n1))
         \<and> (\<not> truthy (s (velocity_key e ''1h'')) \<longrightarrow> n1 = 0)"
    using g1 p1 by (intro read_counter) (simp add: then_do_def)
  have r2: "s2' = s1' \<and> (truthy (s1' (velocity_key e ''24h''))
                \<longrightarrow> s1' (velocity_key e ''24h'') = Some (VInt n2))
         \<and> (\<not> truthy (s1' (velocity_key e ''24h'')) \<longrightarrow> n2 = 0)"
    using g2 p2 by (intro read_counter) (simp add: then_do_def)
  have r3: "s3' = s2' \<and> (truthy (s2' (velocity_key e ''7d''))
                \<longrightarrow> s2' (velocity_key e ''7d'') = Some (VInt n3))
         \<and> (\<not> truthy (s2' (velocity_key e ''7d'')) \<longrightarrow> n3 = 0)"
    using g3 p3 by (intro read_counter) (simp add: then_do_def)
  from fin have "vc = Map.empty(''velocity_1h'' \<mapsto> n1, ''velocity_24h'' \<mapsto> n2,
                 ''velocity_7d'' \<mapsto> n3)" "s' = s3'" by (simp_all add: returns_def)
  with r1 r2 r3 show ?thesis by simp
qed

lemma incr_step:
  assumes "then_do (redis_incr key) (\<lambda>n. then_do m (\<lambda>u. rest)) s = (Inr y, s')"
    and m: "\<And>t. m t = (Inr (), t)"
  obtains s1 where "rest s1 = (Inr y, s')"
    "s1 = s(key \<mapsto> VInt (counter_value s key + 1))"
    "s key = None \<or> (\<exists>n. s key = Some (VInt n))"
  using assms(1)
  by (auto simp: then_do_def redis_incr_def m counter_value_def
      split: option.splits rval.splits if_splits)

lemma update_velocity_counts_three:
  assumes "update_velocity_counts e [''1h'', ''24h'', ''7d''] s = (Inr u, s')"
  shows "\<forall>w \<in> {''1h'', ''24h'', ''7d''}.
           s' (velocity_key e w) = Some (VInt (counter_value s (velocity_key e w) + 1))
           \<and> (s (velocity_key e w) = None \<or> (\<exists>n. s (velocity_key e w) = Some (VInt n)))"
proof -
  let ?k1 = "velocity_key e ''1h''" and ?k2 = "velocity_key e ''24h''"
    and ?k3 = "velocity_key e ''7d''"
  have a: "then_do (redis_incr ?k1) (\<lambda>n. then_do (redis_expire ?k1 3600)
             (\<lambda>u. update_velocity_counts e [''24h'', ''7d''])) s = (Inr u, s')"
    using assms by simp
  obtain s1 where s1: "update_velocity_counts e [''24h'', ''7d''] s1 = (Inr u, s')"
    "s1 = s(?k1 \<mapsto> VInt (counter_value s ?k1 + 1))"
    "s ?k1 = None \<or> (\<exists>n. s ?k1 = Some (VInt n))"
    using a by (rule incr_step) (simp_all add: redis_expire_def)
  have b: "then_do (redis_incr ?k2) (\<lambda>n. then_do (redis_expire ?k2 86400)
             (\<lambda>u. update_velocity_counts e [''7d''])) s1 = (Inr u, s')"
    using s1(1) by simp
  obtain s2 where s2: "update_velocity_counts e [''7d''] s2 = (Inr u, s')"
    "s2 = s1(?k2 \<mapsto> VInt (counter_value s1 ?k2 + 1))"
    "s1 ?k2 = None \<or> (\<exists>n. s1 ?k2 = Some (VInt n))"
    using b by (rule incr_step) (simp_all add: redis_expire_def)
  have c: "then_do (redis_incr ?k3) (\<lambda>n. then_do (redis_expire ?k3 604800)
             (\<lambda>u. update_velocity_counts e [])) s2 = (Inr u, s')"
    using s2(1) by simp
  obtain s3 where s3: "update_velocity_counts e [] s3 = (Inr u, s')"
    "s3 = s2(?k3 \<mapsto> VInt (counter_value s2 ?k3 + 1))"
    "s2 ?k3 = None \<or> (\<exists>n. s2 ?k3 = Some (VInt n))"
    using c by (rule incr_step) (simp_all add: redis_expire_def)
  have fin: "s' = s3" using s3(1) by (simp add: returns_def)
  show ?thesis
    using s1(2,3) s2(2,3) s3(2,3) fin by (simp add: counter_value_def)
qed

text \<open>The later steps of \<open>process_event\<close> write under other prefixes only.\<close>

lemma get_ip_risk_score_frame:
  "get_ip_risk_score ip s = (r, s') \<Longrightarrow> s' (velocity_key e w) = s (velocity_key e w)"
  by (auto simp: get_ip_risk_score_def then_do_def redis_get_def redis_setex_def returns_def
      lift_def velocity_key_def truthy_def split: option.splits rval.splits if_splits)

lemma get_merchant_risk_score_frame:
  "get_merchant_risk_score m s = (r, s') \<Longrightarrow> s' (velocity_key e w) = s (velocity_key e w)"
  by (auto simp: get_merchant_risk_score_def then_do_def redis_get_def redis_setex_def
      returns_def lift_def velocity_key_def truthy_def
      split: option.splits rval.splits if_splits)

lemma get_geolocation_frame:
  "get_geolocation ip s = (r, s') \<Longrightarrow> s' (velocity_key e w) = s (velocity_key e w)"
  by (auto simp: get_geolocation_def then_do_def redis_get_def redis_setex_def returns_def
      raises_def velocity_key_def truthy_def split: option.splits rval.splits if_splits)

lemma calculate_geo_distance_frame:
  "calculate_geo_distance g a lat lon s = (r, s')
   \<Longrightarrow> s' (velocity_key e w) = s (velocity_key e w)"
  by (auto simp: calculate_geo_distance_def then_do_def redis_get_def redis_setex_def
      returns_def raises_def lift_def velocity_key_def truthy_def
      split: option.splits rval.splits if_splits)

lemma get_account_age_frame:
  "get_account_age a s = (r, s') \<Longrightarrow> s' (velocity_key e w) = s (velocity_key e w)"
  by (auto simp: get_account_age_def then_do_def redis_get_def redis_setex_def returns_def
      lift_def velocity_key_def truthy_def split: option.splits rval.splits if_splits)

lemma event_geo_distance_frame:
  "event_geo_distance g a geo s = (r, s') \<Longrightarrow> s' (velocity_key e w) = s (velocity_key e w)"
  by (auto simp: event_geo_distance_def returns_def dest: calculate_geo_distance_frame
      split: option.splits prod.splits if_splits)

text \<open>
  C3. For every event for which \<open>process_event\<close> emits a feature vector, and every prior
  state of the store: the velocity_1h, velocity_24h and velocity_7d of the vector are the
  values of the entity's three counters before this event, and afterwards each of the three
  counters holds its prior value plus one.
\<close>

theorem velocity_excludes_current_event:
  assumes run: "process_event geodesic event s = (Inr fv, s')"
  shows "velocity_1h fv = counter_value s (velocity_key (ev_entity_id event) ''1h'')
       \<and> velocity_24h fv = counter_value s (velocity_key (ev_entity_id event) ''24h'')
       \<and> velocity_7d fv = counter_value s (velocity_key (ev_entity_id event) ''7d'')
       \<and> s' (velocity_key (ev_entity_id event) ''1h'')
           = Some (VInt (counter_value s (velocity_key (ev_entity_id event) ''1h'') + 1))
       \<and> s' (velocity_key (ev_entity_id event) ''24h'')
           = Some (VInt (counter_value s (velocity_key (ev_entity_id event) ''24h'') + 1))
       \<and> s' (velocity_key (ev_entity_id event) ''7d'')
           = Some (VInt (counter_value s (velocity_key (ev_entity_id event) ''7d'') + 1))"
proof -
  let ?e = "ev_entity_id event"
  let ?ws = "[''1h'', ''24h'', ''7d'']"
  let ?cand = "\<lambda>vc ipr mr geo dist age.
           \<lparr>fv_event_id = ev_event_id event, fv_entity_id = ?e,
            amount = Some (ev_amount event), currency = Some (ev_currency event),
            fv_channel = ev_channel event,
            velocity_1h = dict_get vc ''velocity_1h'' 0,
            velocity_24h = dict_get vc ''velocity_24h'' 0,
            velocity_7d = dict_get vc ''velocity_7d'' 0,
            ip_risk = ipr, ip_geolocation = geo,
            geo_distance_km = dist, merchant_risk = mr,
            merchant_category = ev_merchant_category event, age_days = age,
            fv_device_fingerprint = ev_device_fingerprint event,
            fv_session_id = ev_session_id event\<rparr>"
  from run obtain vc s1 u s2 ipr s3 mr s4 geo s5 dist s6 age s7 where
    st1: "get_velocity_counts ?e ?ws s = (Inr vc, s1)"
    and st2: "update_velocity_counts ?e ?ws s1 = (Inr u, s2)"
    and st3: "get_ip_risk_score (ev_ip_address event) s2 = (Inr ipr, s3)"
    and st4: "get_merchant_risk_score (ev_merchant_id event) s3 = (Inr mr, s4)"
    and st5: "get_geolocation (ev_ip_address event) s4 = (Inr geo, s5)"
    and st6: "event_geo_distance geodesic ?e geo s5 = (Inr dist, s6)"
    and st7: "get_account_age ?e s6 = (Inr age, s7)"
    and st8: "lift (FeatureVector (?cand vc ipr mr geo dist age)) s7 = (Inr fv, s')"
    unfolding process_event_def Let_def by (elim then_do_Inr) blast
  have fv: "fv = ?cand vc ipr mr geo dist age" and fin: "s' = s7"
    using st8 by (auto simp: lift_def FeatureVector_def split: if_splits)
  have vel: "velocity_1h fv = dict_get vc ''velocity_1h'' 0"
    "velocity_24h fv = dict_get vc ''velocity_24h'' 0"
    "velocity_7d fv = dict_get vc ''velocity_7d'' 0"
    by (simp_all add: fv)
  have frame: "s' (velocity_key ?e w) = s2 (velocity_key ?e w)" for w
    using get_ip_risk_score_frame [OF st3] get_merchant_risk_score_frame [OF st4]
      get_geolocation_frame [OF st5] event_geo_distance_frame [OF st6]
      get_account_age_frame [OF st7] fin by simp
  have rd: "s1 = s" and rdw: "\<forall>w \<in> {''1h'', ''24h'', ''7d''}.
           \<exists>n. vc (''velocity_'' @ w) = Some n
             \<and> (truthy (s (velocity_key ?e w)) \<longrightarrow> s (velocity_key ?e w) = Some (VInt n))
             \<and> (\<not> truthy (s (velocity_key ?e w)) \<longrightarrow> n = 0)"
    using get_velocity_counts_three [OF st1] by simp_all
  have up: "\<forall>w \<in> {''1h'', ''24h'', ''7d''}.
           s2 (velocity_key ?e w) = Some (VInt (counter_value s (velocity_key ?e w) + 1))
           \<and> (s (velocity_key ?e w) = None \<or> (\<exists>n. s (velocity_key ?e w) = Some (VInt n)))"
    using update_velocity_counts_three [OF st2] rd by simp
  have val: "dict_get vc (''velocity_'' @ w) 0 = counter_value s (velocity_key ?e w)"
    if "w \<in> {''1h'', ''24h'', ''7d''}" for w
  proof -
    from rdw that obtain n where n: "vc (''velocity_'' @ w) = Some n"
      "truthy (s (velocity_key ?e w)) \<longrightarrow> s (velocity_key ?e w) = Some (VInt n)"
      "\<not> truthy (s (velocity_key ?e w)) \<longrightarrow> n = 0" by blast
    from up that
    have "s (velocity_key ?e w) = None \<or> (\<exists>n. s (velocity_key ?e w) = Some (VInt n))"
      by auto
    then show ?thesis using n
      by (auto simp: dict_get_def counter_value_def truthy_def)
  qed
  have v1: "velocity_1h fv = counter_value s (velocity_key ?e ''1h'')"
    using val [of "''1h''"] vel(1) by simp
  have v2: "velocity_24h fv = counter_value s (velocity_key ?e ''24h'')"
    using val [of "''24h''"] vel(2) by simp
  have v3: "velocity_7d fv = counter_value s (velocity_key ?e ''7d'')"
    using val [of "''7d''"] vel(3) by simp
  show ?thesis using v1 v2 v3 up frame by simp
qed

lemma process_event_acct7_emits:
  "\<exists>fv s'. process_event flat_geodesic event_acct7 store_acct7 = (Inr fv, s')"
  by (simp add: process_event_def Let_def event_acct7_def store_acct7_def
      get_velocity_counts_def then_do_def redis_get_def redis_incr_def redis_expire_def
      redis_setex_def returns_def lift_def truthy_def int_of_reply_def float_of_reply_def
      velocity_key_def get_ip_risk_score_def get_merchant_risk_score_def get_geolocation_def
      event_geo_distance_def calculate_geo_distance_def get_account_age_def
      FeatureVector_def dict_get_def default_geo_def flat_geodesic_def)

theorem velocity_excludes_current_event_witness:
  "\<exists>fv s'. process_event flat_geodesic event_acct7 store_acct7 = (Inr fv, s')
     \<and> velocity_1h fv = 2 \<and> velocity_24h fv = 5 \<and> velocity_7d fv = 0
     \<and> s' ''velocity:acct-7:1h'' = Some (VInt 3)
     \<and> s' ''velocity:acct-7:24h'' = Some (VInt 6)
     \<and> s' ''velocity:acct-7:7d'' = Some (VInt 1)"
proof -
  obtain fv s' where run: "process_event flat_geodesic event_acct7 store_acct7 = (Inr fv, s')"
    using process_event_acct7_emits by blast
  have e: "ev_entity_id event_acct7 = ''acct-7''" by (simp add: event_acct7_def)
  have c: "counter_value store_acct7 (velocity_key ''acct-7'' ''1h'') = 2"
    "counter_value store_acct7 (velocity_key ''acct-7'' ''24h'') = 5"
    "counter_value store_acct7 (velocity_key ''acct-7'' ''7d'') = 0"
    by (simp_all add: counter_value_def store_acct7_def velocity_key_def)
  have k: "velocity_key ''acct-7'' ''1h'' = ''velocity:acct-7:1h''"
    "velocity_key ''acct-7'' ''24h'' = ''velocity:acct-7:24h''"
    "velocity_key ''acct-7'' ''7d'' = ''velocity:acct-7:7d''"
    by (simp_all add: velocity_key_def)
  from velocity_excludes_current_event [OF run]
  have "velocity_1h fv = 2 \<and> velocity_24h fv = 5 \<and> velocity_7d fv = 0
     \<and> s' ''velocity:acct-7:1h'' = Some (VInt 3)
     \<and> s' ''velocity:acct-7:24h'' = Some (VInt 6)
     \<and> s' ''velocity:acct-7:7d'' = Some (VInt 1)"
    unfolding e c by (simp add: k)
  with run show ?thesis by blast
qed

subsection \<open>Graph anomaly\<close>

text \<open>What \<open>check_graph_anomaly\<close> computes for a device whose key is absent or holds a set:
  the flag compares the number of accounts linked before this event with 5, and the
  account of the event is linked afterwards.\<close>

lemma check_graph_anomaly_prior_count:
  assumes dev: "device \<noteq> []"
    and st: "s (''device_accounts:'' @ device) = None \<and> members = {||}
             \<or> s (''device_accounts:'' @ device) = Some (VSet members)"
  shows "check_graph_anomaly entity_id (Some device) s
         = (fcard members > 5,
            s(''device_accounts:'' @ device \<mapsto> VSet (finsert entity_id members)))"
  using assms
  by (auto simp: check_graph_anomaly_def Let_def then_do_def redis_scard_def redis_sadd_def
      redis_expire_def returns_def fcard_fempty)

lemma fcard_five_accounts: "fcard five_accounts = 5"
  by (simp add: five_accounts_def fcard_finsert_if)

lemma fcard_six_accounts: "fcard (finsert ''acct-6'' five_accounts) = 6"
  by (simp add: five_accounts_def fcard_finsert_if)

text \<open>
  C7. The claim: for a non-empty device fingerprint, \<open>check_graph_anomaly\<close> returns true iff
  the number of distinct entities linked to the device, after the current entity is
  inserted, exceeds 5. On a device linked to five accounts, a sixth account is inserted, the
  device then has 6 accounts, and the function returns false.
\<close>

theorem graph_anomaly_sixth_account_not_flagged:
  "fst (check_graph_anomaly ''acct-6'' (Some ''dev-1'') store_dev1) = False
   \<and> snd (check_graph_anomaly ''acct-6'' (Some ''dev-1'') store_dev1) ''device_accounts:dev-1''
       = Some (VSet (finsert ''acct-6'' five_accounts))
   \<and> fcard (finsert ''acct-6'' five_accounts) = 6"
proof -
  have "check_graph_anomaly ''acct-6'' (Some ''dev-1'') store_dev1
        = (fcard five_accounts > 5,
           store_dev1(''device_accounts:'' @ ''dev-1''
             \<mapsto> VSet (finsert ''acct-6'' five_accounts)))"
    by (rule check_graph_anomaly_prior_count) (simp_all add: store_dev1_def)
  then show ?thesis by (simp add: fcard_five_accounts fcard_six_accounts)
qed

subsection \<open>Case coupling\<close>














subsection \<open>Audit round trip\<close>

lemma replicate_numeral: "replicate (numeral k) x = x # replicate (pred_numeral k) x"
  by (simp add: numeral_eq_Suc)

text \<open>The serialisation that is hashed when a bundle is stored lists the keys in insertion
  order (\<open>bundle_id\<close>, \<open>event_id\<close>, \<dots>); the one hashed at verification lists them sorted
  (\<open>bundle_id\<close>, \<open>created_at\<close>, \<dots>). For every payload the two texts differ.\<close>

lemma evidence_document_order:
  "dumps False 2 0 (evidence_document b e t d c) \<noteq> dumps True 2 0 (evidence_document b e t d c)"
  by (simp add: evidence_document_def newline_indent_def encode_basestring_ascii_def
      escape_char_def replicate_numeral)

lemma after_log_decision_eq:
  "after_log_decision H =
     (Inr (H (dumps False 2 0 stored_document)),
      [''2024/01/01/b-1.json'' \<mapsto> stored_document],
      [\<lparr>row_event_id = ''evt-1'', row_event_type = ''decision'', row_entity_id = None,
        row_user_id = None, row_action = ''allow'', row_details = decision_payload,
        row_evidence_hash = Some (H (dumps False 2 0 stored_document)),
        row_evidence_path = Some ''2024/01/01/b-1.json''\<rparr>])"
  by (simp add: after_log_decision_def log_decision_def store_evidence_bundle_def
      log_audit_event_def dict_get_json_def pydantic_str_def pydantic_optional_str_def
      calculate_hash_def stored_document_def decision_payload_def Let_def)

text \<open>
  C1. The claim: the hash recorded for a stored bundle is SHA-256 of the canonical JSON
  (sorted keys) of the stored object, so that \<open>verify_audit_integrity\<close> on an unmodified
  bundle recomputes the same hash and reports \<open>verified\<close>. The decision
  \<open>{"event_id": "evt-1", "action": "allow"}\<close> is logged on empty stores and verified at
  once, with any hash function \<open>H\<close> in the place of SHA-256: the hash recorded is \<open>H\<close> of the
  insertion-order text, the hash recomputed is \<open>H\<close> of the sorted text, the two texts differ,
  and the report is \<open>verified\<close> only if \<open>H\<close> collides on them.
\<close>

theorem audit_round_trip_mismatch:
  "fst (after_log_decision H) = Inr (H (dumps False 2 0 stored_document))
   \<and> verify_audit_integrity H ''evt-1'' (snd (after_log_decision H))
       = Inr \<lparr>rep_event_id = ''evt-1'',
              integrity_status =
                (if H (dumps True 2 0 stored_document) = H (dumps False 2 0 stored_document)
                 then ''verified'' else ''compromised''),
              calculated_hash = Some (H (dumps True 2 0 stored_document)),
              stored_hash = Some (H (dumps False 2 0 stored_document))\<rparr>
   \<and> dumps True 2 0 stored_document \<noteq> dumps False 2 0 stored_document"
proof -
  have truthy: "json_truthy stored_document"
    by (simp add: json_truthy_def stored_document_def evidence_document_def)
  have neq: "dumps True 2 0 stored_document \<noteq> dumps False 2 0 stored_document"
    unfolding stored_document_def using evidence_document_order by metis
  show ?thesis
    using truthy neq
    by (simp add: after_log_decision_eq verify_audit_integrity_def get_audit_bundle_def
        calculate_hash_def Let_def)
qed

text \<open>With a hash that has no collision at all (the text itself) the unmodified bundle is
  reported as compromised.\<close>

lemma audit_unmodified_bundle_compromised:
  "map_sum id integrity_status
     (verify_audit_integrity (\<lambda>t. t) ''evt-1'' (snd (after_log_decision (\<lambda>t. t))))
   = Inr ''compromised''"
proof -
  have truthy: "json_truthy stored_document"
    by (simp add: json_truthy_def stored_document_def evidence_document_def)
  have neq: "dumps True 2 0 stored_document \<noteq> dumps False 2 0 stored_document"
    unfolding stored_document_def using evidence_document_order by metis
  show ?thesis
    using truthy neq
    by (simp add: after_log_decision_eq verify_audit_integrity_def get_audit_bundle_def
        calculate_hash_def Let_def)
qed

subsection \<open>Population stability index\<close>

lemma psi_term_nonneg: "0 \<le> psi_term ref cur mn w i"
proof -
  define lo where "lo = mn + real i * w"
  define hi where "hi = mn + (real i + 1) * w"
  define rp where "rp = max (1 / 10 ^ 6) (bin_fraction ref lo hi)"
  define cp where "cp = max (1 / 10 ^ 6) (bin_fraction cur lo hi)"
  have rp: "0 < rp" and cp: "0 < cp" by (simp_all add: rp_def cp_def less_max_iff_disj)
  have t: "psi_term ref cur mn w i = (rp - cp) * ln (rp / cp)"
    using cp by (simp add: psi_term_def Let_def rp_def cp_def lo_def hi_def)
  show ?thesis
  proof (cases "cp \<le> rp")
    case True
    then have "1 \<le> rp / cp" using cp by (simp add: field_simps)
    then have "0 \<le> ln (rp / cp)" by simp
    then show ?thesis using True by (simp add: t)
  next
    case False
    then have "rp / cp < 1" using cp by (simp add: field_simps)
    moreover have "0 < rp / cp" using rp cp by simp
    ultimately have "ln (rp / cp) \<le> 0" by simp
    then show ?thesis using False by (simp add: t mult_nonpos_nonpos)
  qed
qed

lemma psi_term_same: "psi_term a a mn w i = 0"
  by (simp add: psi_term_def Let_def)

lemma fold_add_nonneg:
  "(\<And>i. 0 \<le> f i) \<Longrightarrow> 0 \<le> s \<Longrightarrow> 0 \<le> fold (\<lambda>i s. s + f i) xs (s::real)"
  by (induction xs arbitrary: s) simp_all

lemma fold_add_zero:
  "(\<And>i. f i = 0) \<Longrightarrow> fold (\<lambda>i s. s + f i) xs (s::real) = s"
  by (induction xs arbitrary: s) simp_all

lemma py_min_total: "xs \<noteq> [] \<Longrightarrow> \<exists>m. py_min xs = Inr m"
  by (cases xs) (simp_all add: py_min_def)

lemma py_max_total: "xs \<noteq> [] \<Longrightarrow> \<exists>m. py_max xs = Inr m"
  by (cases xs) (simp_all add: py_max_def)

lemma psi_returns: "\<exists>v. psi a b 10 = Inr v"
proof (cases "int (length a) < 10 \<or> int (length b) < 10")
  case True
  then show ?thesis by (simp add: psi_def)
next
  case False
  then have "a \<noteq> []" "b \<noteq> []" by auto
  then obtain m1 m2 m3 m4 where "py_min a = Inr m1" "py_min b = Inr m2"
    "py_max a = Inr m3" "py_max b = Inr m4"
    using py_min_total py_max_total by metis
  then show ?thesis using False by (simp add: psi_def Let_def)
qed

lemma psi_nonneg: "psi a b 10 = Inr v \<Longrightarrow> 0 \<le> v"
  by (auto simp: psi_def Let_def fold_add_nonneg psi_term_nonneg split: if_splits sum.splits)

lemma psi_self: "psi a a 10 = Inr 0"
proof -
  obtain v where v: "psi a a 10 = Inr v" using psi_returns by blast
  have z: "fold (\<lambda>i s. s + psi_term a a mn w i) xs 0 = 0" for mn w xs
    by (rule fold_add_zero) (rule psi_term_same)
  from v have "v = 0"
    by (auto simp only: psi_def Let_def z split: if_splits sum.splits prod.splits)
  then show ?thesis using v by simp
qed

text \<open>
  C9. With the 10 equal-width bins and the floor of 1e-6 of \<open>psi\<close>: for every list A,
  psi(A, A) is returned and is below 1e-9 (it is 0), and for every pair of lists A, B,
  psi(A, B) is returned and is at least 0.
\<close>

theorem psi_self_zero_and_nonneg:
  "(\<exists>v. psi a a 10 = Inr v \<and> v < 1 / 10 ^ 9) \<and> (\<exists>v. psi a b 10 = Inr v \<and> 0 \<le> v)"
proof -
  have "\<exists>v. psi a a 10 = Inr v \<and> v < 1 / 10 ^ 9" using psi_self [of a] by simp
  moreover have "\<exists>v. psi a b 10 = Inr v \<and> 0 \<le> v"
    using psi_returns [of a b] psi_nonneg [of a b] by blast
  ultimately show ?thesis by blast
qed

subsection \<open>Brier score under self-labelling\<close>

lemma self_label_error:
  assumes "0 \<le> p" "p \<le> 1"
  shows "(p - real_of_int (if p > 0.5 then 1 else 0)) ^ 2 \<le> (1/4 :: real)"
proof (cases "p > 0.5")
  case True
  then have "\<bar>p - 1\<bar> \<le> 1/2" using assms by simp
  then have "\<bar>p - 1\<bar> ^ 2 \<le> (1/2) ^ 2" by (intro power_mono) simp_all
  then show ?thesis using True by (simp add: power2_eq_square)
next
  case False
  then have "\<bar>p\<bar> \<le> 1/2" using assms by simp
  then have "\<bar>p\<bar> ^ 2 \<le> (1/2) ^ 2" by (intro power_mono) simp_all
  then show ?thesis using False by (simp add: power2_eq_square)
qed

lemma sum_self_label_bound:
  assumes "\<forall>p \<in> set ps. 0 \<le> p \<and> p \<le> 1"
  shows "sum_list (map (\<lambda>(y, p). (p - real_of_int y) ^ 2) (zip (mock_labels ps) ps))
         \<le> real (length ps) / 4"
  using assms
proof (induction ps)
  case Nil
  then show ?case by (simp add: mock_labels_def)
next
  case (Cons p ps)
  have "(p - real_of_int (if p > 0.5 then 1 else 0)) ^ 2 \<le> 1/4"
    using Cons.prems by (intro self_label_error) simp_all
  moreover have "sum_list (map (\<lambda>(y, p). (p - real_of_int y) ^ 2) (zip (mock_labels ps) ps))
         \<le> real (length ps) / 4" using Cons by simp
  ultimately show ?case by (simp add: mock_labels_def field_simps)
qed

lemma brier_self_label_bound:
  assumes "\<forall>p \<in> set ps. 0 \<le> p \<and> p \<le> 1"
  shows "brier_score (mock_labels ps) ps \<le> 1/4"
proof (cases "ps = []")
  case True
  then show ?thesis by (simp add: brier_score_def mock_labels_def)
next
  case False
  then have n: "0 < real (length ps)" by simp
  have "sum_list (map (\<lambda>(y, p). (p - real_of_int y) ^ 2) (zip (mock_labels ps) ps))
         / real (length ps) \<le> (real (length ps) / 4) / real (length ps)"
    using sum_self_label_bound [OF assms] n by (intro divide_right_mono) simp_all
  also have "\<dots> = 1/4" using n by simp
  finally show ?thesis using False by (simp add: brier_score_def mock_labels_def)
qed

lemma calculate_brier_score_self_label:
  assumes "\<forall>p \<in> set ps. 0 \<le> p \<and> p \<le> 1"
  shows "calculate_brier_score (mock_labels ps) ps \<le> 1/4"
proof (cases "ps = []")
  case True
  then show ?thesis
    by (simp add: calculate_brier_score_def brier_score_loss_def mock_labels_def)
next
  case False
  have "(\<lambda>(y, p). (real_of_int y - p) ^ 2) = (\<lambda>(y, p). (p - real_of_int y) ^ 2)"
    by (auto simp: power2_commute)
  then have "calculate_brier_score (mock_labels ps) ps = brier_score (mock_labels ps) ps"
    using False
    by (simp add: calculate_brier_score_def brier_score_loss_def brier_score_def mock_labels_def)
  then show ?thesis using brier_self_label_bound [OF assms] by simp
qed

lemma prom_metrics_brier_quiet:
  assumes "\<forall>p \<in> set buf. 0 \<le> p \<and> p \<le> 1"
    and "prom_metrics_brier default_monitor_settings buf = Some (b, alert)"
  shows "b \<le> 1/4 \<and> \<not> alert"
proof -
  have "set (py_last 100 buf) \<subseteq> set buf" unfolding py_last_def by (rule set_drop_subset)
  then have "\<forall>p \<in> set (py_last 100 buf). 0 \<le> p \<and> p \<le> 1" using assms(1) by blast
  then have "brier_score (mock_labels (py_last 100 buf)) (py_last 100 buf) \<le> 1/4"
    by (rule brier_self_label_bound)
  then show ?thesis
    using assms(2)
    by (auto simp: prom_metrics_brier_def Let_def default_monitor_settings_def
        split: if_splits)
qed

text \<open>
  C10. With the labels \<open>y = 1 if p > 0.5 else 0\<close> taken from the scores themselves, for every
  buffer of scores in [0, 1]: each squared error is at most 0.25; the Brier score
  \<open>calculate_calibration_metrics\<close> computes for a model is at most 0.25; and where the
  alert exists (\<open>prom_metrics\<close>, threshold 0.25) the Brier score is at most 0.25 and the
  alert condition Brier > 0.25 does not hold.
\<close>

theorem brier_alert_unreachable:
  assumes "\<forall>m. \<forall>p \<in> set (recent_scores m). 0 \<le> p \<and> p \<le> 1"
    and "\<forall>p \<in> set buf. 0 \<le> p \<and> p \<le> 1"
  shows "(\<forall>p \<in> set buf. (p - real_of_int (if p > 0.5 then 1 else 0)) ^ 2 \<le> 0.25)
       \<and> (\<forall>m b. (m, b) \<in> set (calculate_calibration_metrics recent_scores) \<longrightarrow> b \<le> 0.25)
       \<and> (\<forall>b alert. prom_metrics_brier default_monitor_settings buf = Some (b, alert)
             \<longrightarrow> b \<le> 0.25 \<and> \<not> alert)"
proof -
  have a: "\<forall>p \<in> set buf. (p - real_of_int (if p > 0.5 then 1 else 0)) ^ 2 \<le> 0.25"
    using assms(2) self_label_error by auto
  have m: "calculate_brier_score (map (\<lambda>s. if s > 0.5 then 1 else 0) (recent_scores m))
             (recent_scores m) \<le> 1/4" for m
    using calculate_brier_score_self_label [of "recent_scores m"] assms(1)
    by (simp add: mock_labels_def)
  have b: "\<forall>m b. (m, b) \<in> set (calculate_calibration_metrics recent_scores) \<longrightarrow> b \<le> 0.25"
    using m by (auto simp: calculate_calibration_metrics_def Let_def split: if_splits)
  have c: "\<forall>b alert. prom_metrics_brier default_monitor_settings buf = Some (b, alert)
             \<longrightarrow> b \<le> 0.25 \<and> \<not> alert"
    using prom_metrics_brier_quiet [OF assms(2)] by auto
  show ?thesis using a b c by blast
qed

theorem brier_alert_unreachable_witness:
  "prom_metrics_brier default_monitor_settings (replicate 101 (1/2)) = Some (1/4, False)
   \<and> calculate_calibration_metrics (\<lambda>m. replicate 101 (1/2))
       = [(''xgb'', 1/4), (''nn'', 1/4), (''ensemble'', 1/4)]"
proof -
  have h: "\<forall>m. \<forall>p \<in> set ((\<lambda>m. replicate 101 (1/2 :: real)) m). 0 \<le> p \<and> p \<le> 1" by simp
  have h2: "\<forall>p \<in> set (replicate 101 (1/2 :: real)). 0 \<le> p \<and> p \<le> 1" by simp
  have z: "zip (replicate n x) (replicate n y) = replicate n (x, y)" for n and x :: int and y :: real
    by (induction n) simp_all
  have s: "sum_list (replicate n (v::real)) = real n * v" for n v
    by (induction n) (simp_all add: algebra_simps)
  have p: "prom_metrics_brier default_monitor_settings (replicate 101 (1/2))
           = Some (1/4, False)"
    by (simp add: prom_metrics_brier_def Let_def default_monitor_settings_def py_last_def
        mock_labels_def brier_score_def z s power2_eq_square)
  have c: "calculate_calibration_metrics (\<lambda>m. replicate 101 (1/2))
       = [(''xgb'', 1/4), (''nn'', 1/4), (''ensemble'', 1/4)]"
    by (simp add: calculate_calibration_metrics_def Let_def calculate_brier_score_def
        brier_score_loss_def z s power2_eq_square)
  from brier_alert_unreachable [OF h h2] p c show ?thesis by simp
qed

end
